theory Spec2Isabelle
  imports Complex_Main "HOL-Library.Sublist"
begin

section \<open>The suggestion engine of ai_suggestion_engine.js\<close>

text \<open>
  The class \<open>AISuggestionEngine\<close> maps a list of logged symptom records to a ranked list of
  suggestion objects. Its methods are embedded as HOL functions of the same names; the field
  \<open>healthKnowledge\<close> and the current time, which the methods read, are arguments.

  Numbers. A JavaScript number is modelled as a real, extended by the three values that a
  division by zero or an arithmetic step on them produces (\<open>Infinity\<close>, \<open>-Infinity\<close>,
  \<open>NaN\<close>). Finite arithmetic is exact: a decimal literal such as \<open>0.6\<close> is the rational it
  denotes, and the rounding of IEEE doubles and the sign of zero are not modelled. Every
  comparison with \<open>NaN\<close> is false, as in the language.

  Strings. A string is the list of its characters; the slugs of the engine are ASCII.
\<close>

subsection \<open>Numbers\<close>

datatype jsnum = Num real | PosInf | NegInf | NaN

text \<open>\<open>a / b\<close> on finite operands.\<close>

definition js_div :: "real \<Rightarrow> real \<Rightarrow> jsnum" where
  "js_div a b =
     (if b = 0 then (if a = 0 then NaN else if 0 < a then PosInf else NegInf)
      else Num (a / b))"

text \<open>\<open>x * m\<close> with \<open>m\<close> finite.\<close>

fun js_mul :: "jsnum \<Rightarrow> real \<Rightarrow> jsnum" where
  "js_mul (Num a) m = Num (a * m)"
| "js_mul PosInf m = (if 0 < m then PosInf else if m < 0 then NegInf else NaN)"
| "js_mul NegInf m = (if 0 < m then NegInf else if m < 0 then PosInf else NaN)"
| "js_mul NaN m = NaN"

text \<open>\<open>Math.min(c, x)\<close> with \<open>c\<close> finite.\<close>

fun Math_min :: "real \<Rightarrow> jsnum \<Rightarrow> jsnum" where
  "Math_min c (Num a) = Num (min c a)"
| "Math_min c PosInf = Num c"
| "Math_min c NegInf = NegInf"
| "Math_min c NaN = NaN"

text \<open>\<open>Math.round(x)\<close>: the integer nearest to \<open>x\<close>, a tie going upwards.\<close>

fun Math_round :: "jsnum \<Rightarrow> jsnum" where
  "Math_round (Num a) = Num (of_int \<lfloor>a + 1 / 2\<rfloor>)"
| "Math_round PosInf = PosInf"
| "Math_round NegInf = NegInf"
| "Math_round NaN = NaN"

text \<open>\<open>x >= y\<close>.\<close>

fun js_ge :: "jsnum \<Rightarrow> jsnum \<Rightarrow> bool" where
  "js_ge NaN y = False"
| "js_ge x NaN = False"
| "js_ge PosInf y = True"
| "js_ge x NegInf = True"
| "js_ge NegInf y = False"
| "js_ge x PosInf = False"
| "js_ge (Num a) (Num b) = (b \<le> a)"

text \<open>\<open>x < y\<close>.\<close>

fun js_lt :: "jsnum \<Rightarrow> jsnum \<Rightarrow> bool" where
  "js_lt NaN y = False"
| "js_lt x NaN = False"
| "js_lt PosInf y = False"
| "js_lt x NegInf = False"
| "js_lt NegInf y = True"
| "js_lt x PosInf = True"
| "js_lt (Num a) (Num b) = (a < b)"

subsection \<open>Strings and arrays\<close>

text \<open>
  \<open>String.prototype.includes\<close>: the search string occurs at some position of the string.
  The empty search string occurs in every string.
\<close>

fun str_includes :: "string \<Rightarrow> string \<Rightarrow> bool" where
  "str_includes [] d = (d = [])"
| "str_includes (c # cs) d = (prefix d (c # cs) \<or> str_includes cs d)"

text \<open>\<open>Array.prototype.includes\<close> on an array of strings.\<close>

fun array_includes :: "string list \<Rightarrow> string \<Rightarrow> bool" where
  "array_includes [] x = False"
| "array_includes (y # ys) x = (y = x \<or> array_includes ys x)"

text \<open>\<open>Array.prototype.some\<close>.\<close>

fun some :: "('a \<Rightarrow> bool) \<Rightarrow> 'a list \<Rightarrow> bool" where
  "some P [] = False"
| "some P (x # xs) = (P x \<or> some P xs)"

subsection \<open>Data\<close>

text \<open>
  A symptom record as the engine reads it: its slug, its severity (the logging form parses the
  slider with \<open>parseInt\<close>) and its timestamp. The timestamp is the time value, in
  milliseconds, that \<open>new Date(s.timestamp)\<close> yields; \<open>None\<close> stands for a record whose
  timestamp is missing or does not parse (an invalid date, which no comparison accepts).
  The other fields of a record (displayName, duration, notes, date, groupId) are never read
  by the engine.
\<close>

record SymptomRecord =
  type :: string
  severity :: int
  timestamp :: "int option"

datatype priority = Critical | High | Medium | Low

text \<open>
  A suggestion. The record keeps the fields that the engine reads back (\<open>id\<close>, \<open>priority\<close>,
  \<open>confidence\<close>) together with \<open>category\<close> and \<open>diseaseInfo.stage\<close>; the display texts
  (title, description, reasoning, actions, healthInfo, medications, timeframe) are copied
  into the object and never read again, and are left out. \<open>confidence = None\<close> is an object
  without that property.
\<close>

record Suggestion =
  id_s :: string
  priority :: priority
  category :: string
  stage :: "string option"
  confidence :: "jsnum option"

text \<open>
  A disease pattern: the fields of an entry of \<open>getDiseasePatterns()\<close> that enter a
  computation. \<open>severity_p\<close> is the entry's \<open>severity\<close>; \<open>earlySymptoms\<close> is optional, as
  the guard in \<open>determineStage\<close> allows.
\<close>

record DiseasePattern =
  symptoms :: "string list"
  threshold :: real
  confidenceMultiplier :: real
  severity_p :: string
  earlySymptoms :: "string list option"

subsection \<open>Emergency assessment\<close>

definition assessEmergencySymptoms :: "SymptomRecord list \<Rightarrow> Suggestion list" where
  "assessEmergencySymptoms symptoms_in =
     (let emergencySymptoms =
            filter (\<lambda>s. severity s \<ge> 8 \<or>
                         array_includes [''chest-pain'', ''shortness-breath'', ''severe-headache'']
                           (type s))
              symptoms_in
      in if length emergencySymptoms > 0
         then [\<lparr>id_s = ''emergency_care'', priority = Critical, category = ''emergency'',
                 stage = None, confidence = Some (Num 95)\<rparr>]
         else [])"

subsection \<open>Pattern match score\<close>

definition countMatches :: "string list \<Rightarrow> string list \<Rightarrow> nat" where
  "countMatches userSymptoms diseaseSymptoms =
     length (filter (\<lambda>symptom.
        some (\<lambda>diseaseSymptom.
          str_includes symptom diseaseSymptom \<or> str_includes diseaseSymptom symptom)
          diseaseSymptoms)
       userSymptoms)"

definition calculatePatternMatch :: "string list \<Rightarrow> string list \<Rightarrow> jsnum" where
  "calculatePatternMatch userSymptoms diseaseSymptoms =
     (let matches =
            length (filter (\<lambda>symptom.
               some (\<lambda>diseaseSymptom.
                 str_includes symptom diseaseSymptom \<or> str_includes diseaseSymptom symptom)
                 diseaseSymptoms)
              userSymptoms)
      in js_div (real matches) (real (length diseaseSymptoms)))"

subsection \<open>Disease prediction\<close>

text \<open>The four entries of the object that \<open>getDiseasePatterns()\<close> returns, in its order.\<close>

definition flu :: DiseasePattern where
  "flu =
     \<lparr>symptoms = [''fever'', ''headache'', ''muscle-aches'', ''fatigue'', ''cough''],
      threshold = 0.6, confidenceMultiplier = 85, severity_p = ''medium'',
      earlySymptoms = Some [''fatigue'', ''mild-headache'', ''body-aches'']\<rparr>"

definition cold :: DiseasePattern where
  "cold =
     \<lparr>symptoms = [''runny-nose'', ''sneezing'', ''sore-throat'', ''mild-headache'', ''cough''],
      threshold = 0.5, confidenceMultiplier = 80, severity_p = ''low'',
      earlySymptoms = Some [''scratchy-throat'', ''sneezing'', ''runny-nose'']\<rparr>"

definition migraine :: DiseasePattern where
  "migraine =
     \<lparr>symptoms = [''severe-headache'', ''nausea'', ''light-sensitivity'', ''sound-sensitivity''],
      threshold = 0.7, confidenceMultiplier = 90, severity_p = ''medium'',
      earlySymptoms =
        Some [''mild-headache'', ''mood-changes'', ''food-cravings'', ''neck-stiffness'']\<rparr>"

definition gastroenteritis :: DiseasePattern where
  "gastroenteritis =
     \<lparr>symptoms = [''nausea'', ''vomiting'', ''diarrhea'', ''abdominal-pain'', ''fever''],
      threshold = 0.6, confidenceMultiplier = 85, severity_p = ''medium'',
      earlySymptoms =
        Some [''mild-nausea'', ''loss-of-appetite'', ''mild-abdominal-discomfort'']\<rparr>"

definition getDiseasePatterns :: "(string \<times> DiseasePattern) list" where
  "getDiseasePatterns =
     [(''flu'', flu), (''cold'', cold), (''migraine'', migraine),
      (''gastroenteritis'', gastroenteritis)]"

definition determineStage :: "string list \<Rightarrow> DiseasePattern \<Rightarrow> string" where
  "determineStage symptoms_in pattern =
     (let earlySymptomCount =
            length (filter (\<lambda>s. case earlySymptoms pattern of
                                   None \<Rightarrow> False
                                 | Some early \<Rightarrow> array_includes early s) symptoms_in);
          totalSymptomCount =
            length (filter (\<lambda>s. array_includes (symptoms pattern) s) symptoms_in)
      in if earlySymptomCount > 0 \<and> totalSymptomCount \<le> 2
         then ''Early stage - symptoms just beginning''
         else if real totalSymptomCount \<ge> real (length (symptoms pattern)) * 0.7
         then ''Active stage - full symptom presentation''
         else ''Developing stage - symptoms progressing'')"

text \<open>
  The time \<open>n\<close> days before \<open>now\<close>, for \<open>cutoff.setDate(cutoff.getDate() - n)\<close> on the
  current time. A day is taken as 24 hours (the shift of a daylight-saving change is not
  modelled).
\<close>

definition daysBefore :: "int \<Rightarrow> int \<Rightarrow> int" where
  "daysBefore now n = now - n * 86400000"

definition earlyPatterns :: "(string \<times> string list) list" where
  "earlyPatterns =
     [(''respiratory_infection'', [''scratchy-throat'', ''mild-cough'', ''runny-nose'']),
      (''digestive_issues'', [''mild-nausea'', ''loss-of-appetite'', ''mild-abdominal-discomfort'']),
      (''stress_response'', [''mild-headache'', ''fatigue'', ''muscle-tension''])]"

text \<open>The loop over \<open>Object.entries(earlyPatterns)\<close>.\<close>

fun earlyLoop :: "(string \<times> string list) list \<Rightarrow> SymptomRecord list \<Rightarrow> Suggestion list" where
  "earlyLoop [] recentSymptoms = []"
| "earlyLoop ((pattern, info_symptoms) # rest) recentSymptoms =
     (let matches =
            filter (\<lambda>s. some (\<lambda>early. str_includes (type s) early \<or> str_includes early (type s))
                           info_symptoms)
              recentSymptoms
      in (if length matches \<ge> 2
          then [\<lparr>id_s = ''early_warning_'' @ pattern, priority = Medium,
                  category = ''early_warning'', stage = None, confidence = Some (Num 70)\<rparr>]
          else [])
         @ earlyLoop rest recentSymptoms)"

definition detectEarlySymptoms :: "int \<Rightarrow> SymptomRecord list \<Rightarrow> Suggestion list" where
  "detectEarlySymptoms now symptoms_in =
     (let recentSymptoms =
            filter (\<lambda>s. case timestamp s of
                          None \<Rightarrow> False
                        | Some date \<Rightarrow> date \<ge> daysBefore now 3) symptoms_in
      in earlyLoop earlyPatterns recentSymptoms)"

text \<open>The loop over \<open>Object.entries(diseasePatterns)\<close>.\<close>

fun predictLoop :: "(string \<times> DiseasePattern) list \<Rightarrow> string list \<Rightarrow> Suggestion list" where
  "predictLoop [] symptomTypes = []"
| "predictLoop ((disease, pattern) # rest) symptomTypes =
     (let matchScore = calculatePatternMatch symptomTypes (symptoms pattern);
          matchedCount = countMatches symptomTypes (symptoms pattern)
      in (if js_ge matchScore (Num (threshold pattern)) \<and> matchedCount \<ge> 2
          then (let confidence_v = Math_min 95 (js_mul matchScore (confidenceMultiplier pattern))
                in [\<lparr>id_s = ''disease_prediction_'' @ disease,
                      priority = (if severity_p pattern = ''high'' then High else Medium),
                      category = ''prediction'',
                      stage = Some (determineStage symptomTypes pattern),
                      confidence = Some (Math_round confidence_v)\<rparr>])
          else [])
         @ predictLoop rest symptomTypes)"

text \<open>
  \<open>predictPotentialConditions\<close>. The list of the records of the last seven days that the
  method computes first is not used by it afterwards.
\<close>

definition predictPotentialConditions :: "int \<Rightarrow> SymptomRecord list \<Rightarrow> Suggestion list" where
  "predictPotentialConditions now symptoms_in =
     (let symptomTypes = map type symptoms_in
      in predictLoop getDiseasePatterns symptomTypes @ detectEarlySymptoms now symptoms_in)"

subsection \<open>Combinations of symptoms\<close>

definition analyzeSymptomPatterns :: "SymptomRecord list \<Rightarrow> Suggestion list" where
  "analyzeSymptomPatterns symptoms_in =
     (let symptomTypes = map type symptoms_in
      in (if array_includes symptomTypes ''fever'' \<and> array_includes symptomTypes ''headache''
          then [\<lparr>id_s = ''infection_pattern'', priority = High, category = ''diagnosis'',
                  stage = None, confidence = Some (Num 85)\<rparr>]
          else [])
         @ (if array_includes symptomTypes ''cough'' \<and> array_includes symptomTypes ''fever''
            then [\<lparr>id_s = ''respiratory_pattern'', priority = High, category = ''diagnosis'',
                    stage = None, confidence = Some (Num 80)\<rparr>]
            else []))"

subsection \<open>The knowledge base\<close>

text \<open>
  The knowledge base is the parsed \<open>health_knowledge.json\<close> or the object of
  \<open>getDefaultKnowledge()\<close>. Its two tables are objects keyed by slug and by medication name;
  an entry has the fields that the engine reads from it, those that the default knowledge
  omits being optional.
\<close>

record SymptomKnowledge =
  description :: string
  commonCauses :: "string list option"
  treatments_immediate :: "string list"
  treatments_prevention :: "string list"

record MedInfo =
  genericName :: string
  brandNames :: "string list"
  uses :: "string list"
  dosage :: string
  sideEffects :: "string list option"
  contraindications :: "string list option"

record HealthKnowledge =
  symptoms_kb :: "string \<rightharpoonup> SymptomKnowledge"
  medications :: "string \<rightharpoonup> MedInfo"

definition getDefaultKnowledge :: HealthKnowledge where
  "getDefaultKnowledge =
     \<lparr>symptoms_kb =
        [''headache'' \<mapsto>
           \<lparr>description = ''Pain in the head or neck area'', commonCauses = None,
            treatments_immediate = [''rest'', ''hydration'', ''pain reliever''],
            treatments_prevention = [''regular sleep'', ''stress management'']\<rparr>],
      medications =
        [''acetaminophen'' \<mapsto>
           \<lparr>genericName = ''acetaminophen'', brandNames = [''Tylenol''],
            uses = [''pain relief''], dosage = ''500mg every 4-6 hours'',
            sideEffects = None, contraindications = None\<rparr>]\<rparr>"

text \<open>
  Reading \<open>obj[key]\<close> on a plain object finds the object's own property or, failing that, a
  member of \<open>Object.prototype\<close>. Such a member is truthy and has none of the fields of an
  entry, so the code that goes on to use it as an entry raises a \<open>TypeError\<close>.
\<close>

datatype error = TypeError

datatype 'a property = Own 'a | Inherited | Undefined

definition objectPrototypeKeys :: "string list" where
  "objectPrototypeKeys =
     [''constructor'', ''hasOwnProperty'', ''isPrototypeOf'', ''propertyIsEnumerable'',
      ''toLocaleString'', ''toString'', ''valueOf'', ''__proto__'', ''__defineGetter__'',
      ''__defineSetter__'', ''__lookupGetter__'', ''__lookupSetter__'']"

definition getProperty :: "(string \<rightharpoonup> 'a) \<Rightarrow> string \<Rightarrow> 'a property" where
  "getProperty obj key =
     (case obj key of
        Some v \<Rightarrow> Own v
      | None \<Rightarrow> if array_includes objectPrototypeKeys key then Inherited else Undefined)"

subsection \<open>Management, prevention, medication\<close>

definition categorizeSeverity :: "int \<Rightarrow> string" where
  "categorizeSeverity sev =
     (if sev \<le> 3 then ''mild'' else if sev \<le> 6 then ''moderate'' else ''severe'')"

text \<open>
  \<open>generateSymptomManagement\<close>: the \<open>forEach\<close> over the symptoms. An inherited member in
  place of the knowledge entry fails at \<open>knowledge.description.toLowerCase()\<close>.
\<close>

fun generateSymptomManagement ::
  "HealthKnowledge \<Rightarrow> SymptomRecord list \<Rightarrow> error + Suggestion list" where
  "generateSymptomManagement hk [] = Inr []"
| "generateSymptomManagement hk (symptom # rest) =
     (case getProperty (symptoms_kb hk) (type symptom) of
        Inherited \<Rightarrow> Inl TypeError
      | Undefined \<Rightarrow> generateSymptomManagement hk rest
      | Own knowledge \<Rightarrow>
          (let severity_v = categorizeSeverity (severity symptom);
               suggestion =
                 \<lparr>id_s = ''manage_'' @ type symptom,
                  priority = (if severity_v = ''severe'' then High else Medium),
                  category = ''treatment'', stage = None, confidence = Some (Num 75)\<rparr>
           in case generateSymptomManagement hk rest of
                Inl e \<Rightarrow> Inl e
              | Inr suggestions \<Rightarrow> Inr (suggestion # suggestions)))"

text \<open>
  \<open>generatePreventiveCare\<close>. \<open>[...new Set(xs)]\<close> keeps the first occurrence of each element,
  in order.
\<close>

definition generatePreventiveCare :: "SymptomRecord list \<Rightarrow> Suggestion list" where
  "generatePreventiveCare symptoms_in =
     (let symptomTypes = rev (remdups (rev (map type symptoms_in)))
      in if length symptomTypes > 0
         then [\<lparr>id_s = ''preventive_care'', priority = Low, category = ''prevention'',
                 stage = None, confidence = Some (Num 70)\<rparr>]
         else [])"

definition medicationMap :: "string \<rightharpoonup> string list" where
  "medicationMap =
     [''headache'' \<mapsto> [''acetaminophen'', ''ibuprofen''],
      ''fever'' \<mapsto> [''acetaminophen'', ''ibuprofen''],
      ''cough'' \<mapsto> [''dextromethorphan''],
      ''nausea'' \<mapsto> [''ginger'', ''ondansetron'']]"

text \<open>
  The inner \<open>forEach\<close> over the medication names of one symptom. An inherited member in
  place of the medication record fails at \<open>medInfo.brandNames[0]\<close>.
\<close>

fun medicationsFor ::
  "HealthKnowledge \<Rightarrow> string \<Rightarrow> string list \<Rightarrow> error + Suggestion list" where
  "medicationsFor hk symptomType [] = Inr []"
| "medicationsFor hk symptomType (medName # rest) =
     (case getProperty (medications hk) medName of
        Inherited \<Rightarrow> Inl TypeError
      | Undefined \<Rightarrow> medicationsFor hk symptomType rest
      | Own medInfo \<Rightarrow>
          (let suggestion =
                 \<lparr>id_s = ''medication_'' @ medName @ ''_'' @ symptomType,
                  priority = Medium, category = ''medication'', stage = None,
                  confidence = Some (Num 85)\<rparr>
           in case medicationsFor hk symptomType rest of
                Inl e \<Rightarrow> Inl e
              | Inr suggestions \<Rightarrow> Inr (suggestion # suggestions)))"

text \<open>
  \<open>generateMedicationSuggestions\<close>: the outer \<open>forEach\<close>. An inherited member in place of
  the list of medication names has no \<open>forEach\<close>.
\<close>

fun generateMedicationSuggestions ::
  "HealthKnowledge \<Rightarrow> SymptomRecord list \<Rightarrow> error + Suggestion list" where
  "generateMedicationSuggestions hk [] = Inr []"
| "generateMedicationSuggestions hk (symptom # rest) =
     (case getProperty medicationMap (type symptom) of
        Inherited \<Rightarrow> Inl TypeError
      | Undefined \<Rightarrow> generateMedicationSuggestions hk rest
      | Own recommendedMeds \<Rightarrow>
          (case medicationsFor hk (type symptom) recommendedMeds of
             Inl e \<Rightarrow> Inl e
           | Inr here \<Rightarrow>
               (case generateMedicationSuggestions hk rest of
                  Inl e \<Rightarrow> Inl e
                | Inr suggestions \<Rightarrow> Inr (here @ suggestions))))"

subsection \<open>Aggregation\<close>

text \<open>\<open>Array.prototype.findIndex\<close>: the first index whose element satisfies, or \<open>-1\<close>.\<close>

fun findIndex :: "('a \<Rightarrow> bool) \<Rightarrow> 'a list \<Rightarrow> int" where
  "findIndex P [] = - 1"
| "findIndex P (x # xs) =
     (if P x then 0 else (let i = findIndex P xs in if i = - 1 then - 1 else i + 1))"

definition priorityOrder :: "priority \<Rightarrow> nat" where
  "priorityOrder p = (case p of Critical \<Rightarrow> 0 | High \<Rightarrow> 1 | Medium \<Rightarrow> 2 | Low \<Rightarrow> 3)"

text \<open>
  The first step of \<open>prioritizeAndFormat\<close>: the filter that keeps an item when its index is
  that of the first item with its id.
\<close>

definition unique :: "Suggestion list \<Rightarrow> Suggestion list" where
  "unique suggestions =
     map snd (filter (\<lambda>(index, item).
                        int index = findIndex (\<lambda>s. id_s s = id_s item) suggestions)
                (enumerate 0 suggestions))"

text \<open>
  \<open>prioritizeAndFormat\<close>. \<open>Array.prototype.sort\<close> is stable, and the comparator is the
  difference of the ranks: the result is the stable sort by rank.
\<close>

definition prioritizeAndFormat :: "Suggestion list \<Rightarrow> Suggestion list" where
  "prioritizeAndFormat suggestions =
     sort_key (\<lambda>s. priorityOrder (priority s)) (unique suggestions)"

definition getBasicSuggestions :: "Suggestion list" where
  "getBasicSuggestions =
     [\<lparr>id_s = ''loading'', priority = Low, category = ''system'', stage = None,
       confidence = None\<rparr>]"

text \<open>\<open>s.confidence || 0\<close>: zero for an absent property, for \<open>NaN\<close> and for zero.\<close>

definition confidenceOrZero :: "Suggestion \<Rightarrow> jsnum" where
  "confidenceOrZero s =
     (case confidence s of
        None \<Rightarrow> Num 0
      | Some NaN \<Rightarrow> Num 0
      | Some c \<Rightarrow> c)"

text \<open>
  \<open>generateIntelligentSuggestions(symptoms, recentSymptoms)\<close>, with the field
  \<open>healthKnowledge\<close> (\<open>None\<close> while it is \<open>null\<close>) and the current time as arguments.
\<close>

definition generateIntelligentSuggestions ::
  "HealthKnowledge option \<Rightarrow> int \<Rightarrow> SymptomRecord list \<Rightarrow> SymptomRecord list
     \<Rightarrow> error + Suggestion list" where
  "generateIntelligentSuggestions healthKnowledge now symptoms_in recentSymptoms =
     (case healthKnowledge of
        None \<Rightarrow> Inr getBasicSuggestions
      | Some hk \<Rightarrow>
          (let allSymptoms = symptoms_in @ recentSymptoms;
               emergencySuggestions = assessEmergencySymptoms allSymptoms;
               diseasePredictions =
                 filter (\<lambda>s. js_ge (confidenceOrZero s) (Num 60))
                   (predictPotentialConditions now allSymptoms);
               patternSuggestions = analyzeSymptomPatterns allSymptoms
           in case generateSymptomManagement hk symptoms_in of
                Inl e \<Rightarrow> Inl e
              | Inr management \<Rightarrow>
                  (let managementSuggestions =
                         filter (\<lambda>s. priority s \<noteq> Low \<or> js_ge (confidenceOrZero s) (Num 70))
                           management;
                       preventiveSuggestions = generatePreventiveCare allSymptoms
                   in case generateMedicationSuggestions hk symptoms_in of
                        Inl e \<Rightarrow> Inl e
                      | Inr medicationSuggestions \<Rightarrow>
                          Inr (prioritizeAndFormat
                                 (emergencySuggestions @ diseasePredictions @ patternSuggestions
                                  @ managementSuggestions @ preventiveSuggestions
                                  @ medicationSuggestions)))))"

section \<open>Auxiliary notions\<close>

text \<open>
  The match count in the words of the specification: the number of user slugs that are a
  substring of, or contain, a slug of the pattern. A slug that occurs twice in the user's
  list is counted twice.
\<close>

definition spec_matched :: "string list \<Rightarrow> string list \<Rightarrow> nat" where
  "spec_matched userSlugs patternSlugs =
     length (filter (\<lambda>u. \<exists>d \<in> set patternSlugs. sublist u d \<or> sublist d u) userSlugs)"

text \<open>The number of slugs of a list that are, letter for letter, slugs of the pattern.\<close>

definition exact_matched :: "string list \<Rightarrow> string list \<Rightarrow> nat" where
  "exact_matched slugs patternSlugs = length (filter (\<lambda>s. s \<in> set patternSlugs) slugs)"

definition early_slugs :: "DiseasePattern \<Rightarrow> string set" where
  "early_slugs p = (case earlySymptoms p of None \<Rightarrow> {} | Some es \<Rightarrow> set es)"

text \<open>The two conditions under which a pattern is emitted, and the object emitted for it.\<close>

definition emits :: "DiseasePattern \<Rightarrow> string list \<Rightarrow> bool" where
  "emits pattern symptomTypes \<longleftrightarrow>
     js_ge (calculatePatternMatch symptomTypes (symptoms pattern)) (Num (threshold pattern))
     \<and> countMatches symptomTypes (symptoms pattern) \<ge> 2"

definition predictionOf :: "string \<Rightarrow> DiseasePattern \<Rightarrow> string list \<Rightarrow> Suggestion" where
  "predictionOf disease pattern symptomTypes =
     \<lparr>id_s = ''disease_prediction_'' @ disease,
      priority = (if severity_p pattern = ''high'' then High else Medium),
      category = ''prediction'',
      stage = Some (determineStage symptomTypes pattern),
      confidence =
        Some (Math_round (Math_min 95
          (js_mul (calculatePatternMatch symptomTypes (symptoms pattern))
             (confidenceMultiplier pattern))))\<rparr>"

text \<open>Three records logged an hour before the time \<open>sample_now\<close>, used as a running example.\<close>

definition sample_now :: int where
  "sample_now = 1700000000000"

definition sample :: "SymptomRecord list" where
  "sample =
     [\<lparr>type = ''fever'', severity = 5, timestamp = Some 1699996400000\<rparr>,
      \<lparr>type = ''headache'', severity = 4, timestamp = Some 1699996400000\<rparr>,
      \<lparr>type = ''cough'', severity = 7, timestamp = Some 1699996400000\<rparr>]"

section \<open>Properties\<close>

subsection \<open>Strings\<close>

lemma str_includes_sublist: "str_includes s d \<longleftrightarrow> sublist d s"
proof (induction s)
  case Nil
  show ?case by auto
next
  case (Cons c cs)
  then show ?case by (simp add: sublist_Cons_right)
qed

lemma some_iff: "some P xs \<longleftrightarrow> (\<exists>x \<in> set xs. P x)"
  by (induction xs) auto

lemma array_includes_iff: "array_includes xs x \<longleftrightarrow> x \<in> set xs"
  by (induction xs) auto

lemma some_Nil_filter: "filter (\<lambda>x. some (P x) []) xs = []"
  by (induction xs) auto

subsection \<open>The match score\<close>

lemma countMatches_spec: "countMatches us ds = spec_matched us ds"
proof -
  have "(\<lambda>u. some (\<lambda>d. str_includes u d \<or> str_includes d u) ds) =
        (\<lambda>u. \<exists>d \<in> set ds. sublist u d \<or> sublist d u)"
    by (auto simp: some_iff str_includes_sublist fun_eq_iff)
  then show ?thesis
    by (simp add: countMatches_def spec_matched_def)
qed

lemma calculatePatternMatch_countMatches:
  "calculatePatternMatch us ds = js_div (real (countMatches us ds)) (real (length ds))"
  by (simp add: calculatePatternMatch_def countMatches_def)

lemma countMatches_Nil: "countMatches us [] = 0"
  by (simp add: countMatches_def some_Nil_filter)

lemma countMatches_append: "countMatches (us @ vs) ds = countMatches us ds + countMatches vs ds"
  by (simp add: countMatches_def)

text \<open>
  C2. For every list of user slugs and every pattern, the match score is the number of user
  slugs that are a substring of, or contain, a slug of the pattern, divided (as the
  language divides) by the number of slugs of the pattern: their quotient when the pattern
  has a slug.
\<close>

theorem calculatePatternMatch_spec:
  "calculatePatternMatch us ds = js_div (real (spec_matched us ds)) (real (length ds))
   \<and> (ds \<noteq> [] \<longrightarrow>
        calculatePatternMatch us ds = Num (real (spec_matched us ds) / real (length ds)))"
  by (simp add: calculatePatternMatch_countMatches countMatches_spec js_div_def)

theorem calculatePatternMatch_spec_witness:
  "symptoms flu \<noteq> []
   \<and> spec_matched [''fever'', ''headache'', ''cough''] (symptoms flu) = 3
   \<and> calculatePatternMatch [''fever'', ''headache'', ''cough''] (symptoms flu) = Num (3 / 5)"
proof -
  have ne: "symptoms flu \<noteq> []" by (simp add: flu_def)
  have c: "calculatePatternMatch [''fever'', ''headache'', ''cough''] (symptoms flu) = Num (3 / 5)"
    by (simp add: calculatePatternMatch_def flu_def js_div_def)
  from calculatePatternMatch_spec [of "[''fever'', ''headache'', ''cough'']" "symptoms flu"] ne
  have "calculatePatternMatch [''fever'', ''headache'', ''cough''] (symptoms flu)
          = Num (real (spec_matched [''fever'', ''headache'', ''cough''] (symptoms flu))
                   / real (length (symptoms flu)))"
    by blast
  with c have "Num (real (spec_matched [''fever'', ''headache'', ''cough''] (symptoms flu))
          / real (length (symptoms flu))) = Num (3 / 5)"
    by (simp only:)
  then have "spec_matched [''fever'', ''headache'', ''cough''] (symptoms flu) = 3"
    by (simp add: flu_def)
  with c ne show ?thesis by simp
qed

lemma js_div_mono:
  "a \<le> b \<Longrightarrow> \<not> js_lt (js_div (real b) (real n)) (js_div (real a) (real n))
     \<and> (n \<noteq> 0 \<longrightarrow> js_ge (js_div (real b) (real n)) (js_div (real a) (real n)))"
  by (cases "a = 0"; cases "b = 0") (auto simp: js_div_def divide_right_mono not_less)

lemma getDiseasePatterns_nonempty:
  "(d, p) \<in> set getDiseasePatterns \<Longrightarrow> symptoms p \<noteq> []"
  by (auto simp: getDiseasePatterns_def flu_def cold_def migraine_def gastroenteritis_def)

text \<open>
  C7. The match score is monotonic: for every user slug list, every slug appended to it and
  every disease pattern of the engine (every entry of \<open>getDiseasePatterns\<close>, the only
  patterns the scorer is called with), the new score is greater than or equal to the old
  one. The same holds for any list of pattern slugs that is not empty, and for every list
  of pattern slugs whatever the new score is never lower than the old one.
\<close>

theorem calculatePatternMatch_mono:
  "(\<forall>(disease, pattern) \<in> set getDiseasePatterns.
      js_ge (calculatePatternMatch (us @ [x]) (symptoms pattern))
        (calculatePatternMatch us (symptoms pattern)))
   \<and> (ds \<noteq> [] \<longrightarrow> js_ge (calculatePatternMatch (us @ [x]) ds) (calculatePatternMatch us ds))
   \<and> \<not> js_lt (calculatePatternMatch (us @ [x]) ds) (calculatePatternMatch us ds)"
proof -
  have mono: "\<not> js_lt (calculatePatternMatch (us @ [x]) es) (calculatePatternMatch us es)
     \<and> (es \<noteq> [] \<longrightarrow> js_ge (calculatePatternMatch (us @ [x]) es) (calculatePatternMatch us es))"
    for es
  proof -
    have "countMatches us es \<le> countMatches (us @ [x]) es"
      by (simp add: countMatches_append)
    from js_div_mono [OF this, of "length es"] show ?thesis
      by (simp add: calculatePatternMatch_countMatches)
  qed
  have "js_ge (calculatePatternMatch (us @ [x]) (symptoms p))
          (calculatePatternMatch us (symptoms p))"
    if "(d, p) \<in> set getDiseasePatterns" for d p
    using mono [of "symptoms p"] getDiseasePatterns_nonempty [OF that] by blast
  with mono [of ds] show ?thesis by blast
qed

theorem calculatePatternMatch_mono_witness:
  "(''flu'', flu) \<in> set getDiseasePatterns
   \<and> calculatePatternMatch [''fever''] (symptoms flu) = Num (1 / 5)
   \<and> calculatePatternMatch ([''fever''] @ [''cough'']) (symptoms flu) = Num (2 / 5)
   \<and> js_ge (calculatePatternMatch ([''fever''] @ [''cough'']) (symptoms flu))
        (calculatePatternMatch [''fever''] (symptoms flu))"
proof -
  have tbl: "(''flu'', flu) \<in> set getDiseasePatterns"
    by (simp add: getDiseasePatterns_def)
  have a: "calculatePatternMatch [''fever''] (symptoms flu) = Num (1 / 5)"
    and b: "calculatePatternMatch ([''fever''] @ [''cough'']) (symptoms flu) = Num (2 / 5)"
    by (simp_all add: calculatePatternMatch_def flu_def js_div_def)
  from calculatePatternMatch_mono [of "[''fever'']" "''cough''" "[''fever'']"] tbl
  have "js_ge (calculatePatternMatch ([''fever''] @ [''cough'']) (symptoms flu))
        (calculatePatternMatch [''fever''] (symptoms flu))"
    by blast
  with tbl a b show ?thesis by blast
qed

text \<open>
  A direct call of the method with an empty list of pattern slugs, which the engine never
  makes, divides zero by zero: both scores are \<open>NaN\<close>, which no comparison accepts.
\<close>

lemma calculatePatternMatch_empty_pattern:
  "calculatePatternMatch us [] = NaN
   \<and> \<not> js_ge (calculatePatternMatch (us @ [x]) []) (calculatePatternMatch us [])"
  by (simp add: calculatePatternMatch_countMatches countMatches_Nil js_div_def)

subsection \<open>Emergency assessment\<close>

text \<open>
  C1. The emergency assessor emits a suggestion if and only if some record has severity at
  least 8 or a type in the critical set; when it fires it emits exactly one suggestion, of
  priority critical and confidence 95.
\<close>

theorem assessEmergencySymptoms_fires_iff:
  "(assessEmergencySymptoms ss \<noteq> [] \<longleftrightarrow>
      (\<exists>s \<in> set ss. severity s \<ge> 8
         \<or> type s \<in> {''chest-pain'', ''shortness-breath'', ''severe-headache''}))
   \<and> (assessEmergencySymptoms ss \<noteq> [] \<longrightarrow>
      (\<exists>e. assessEmergencySymptoms ss = [e] \<and> priority e = Critical
           \<and> confidence e = Some (Num 95)))"
proof -
  let ?P = "\<lambda>s. severity s \<ge> 8 \<or>
     array_includes [''chest-pain'', ''shortness-breath'', ''severe-headache''] (type s)"
  have len: "length (filter ?P ss) > 0 \<longleftrightarrow> (\<exists>s \<in> set ss. ?P s)"
    by (simp add: filter_empty_conv)
  show ?thesis
    unfolding assessEmergencySymptoms_def Let_def len by auto
qed

theorem assessEmergencySymptoms_fires_iff_witness:
  "(\<exists>e. assessEmergencySymptoms [\<lparr>type = ''chest-pain'', severity = 9, timestamp = None\<rparr>] = [e]
        \<and> priority e = Critical \<and> confidence e = Some (Num 95))
   \<and> assessEmergencySymptoms [\<lparr>type = ''fever'', severity = 5, timestamp = None\<rparr>] = []"
proof -
  have a: "\<exists>s \<in> set [\<lparr>type = ''chest-pain'', severity = 9, timestamp = None\<rparr>].
             severity s \<ge> 8
             \<or> type s \<in> {''chest-pain'', ''shortness-breath'', ''severe-headache''}"
    by simp
  have b: "\<not> (\<exists>s \<in> set [\<lparr>type = ''fever'', severity = 5, timestamp = None\<rparr>].
             severity s \<ge> 8
             \<or> type s \<in> {''chest-pain'', ''shortness-breath'', ''severe-headache''})"
    by simp
  from a b show ?thesis
    using assessEmergencySymptoms_fires_iff
            [of "[\<lparr>type = ''chest-pain'', severity = 9, timestamp = None\<rparr>]"]
          assessEmergencySymptoms_fires_iff
            [of "[\<lparr>type = ''fever'', severity = 5, timestamp = None\<rparr>]"]
    by blast
qed

text \<open>
  The slug that the logging form derives from the name \<open>Shortness of Breath\<close> is not in the
  set of the assessor, which spells it \<open>shortness-breath\<close>.
\<close>

lemma assessEmergencySymptoms_shortness_of_breath:
  "assessEmergencySymptoms [\<lparr>type = ''shortness-of-breath'', severity = 5, timestamp = None\<rparr>] = []
   \<and> assessEmergencySymptoms [\<lparr>type = ''shortness-breath'', severity = 5, timestamp = None\<rparr>]
       \<noteq> []"
  by (simp add: assessEmergencySymptoms_def)

subsection \<open>The stage of a prediction\<close>

text \<open>
  C5. \<open>determineStage\<close> counts a slug as matched when it is, letter for letter, one of the
  pattern's slugs (or early slugs). It returns the early stage when some slug is an early
  slug and at most two are matched; otherwise the active stage when the matched count is
  at least 70 percent of the number of slugs of the pattern; otherwise the developing stage.
\<close>

theorem determineStage_cases:
  "determineStage ts p =
     (if (\<exists>s \<in> set ts. s \<in> early_slugs p) \<and> exact_matched ts (symptoms p) \<le> 2
      then ''Early stage - symptoms just beginning''
      else if 10 * exact_matched ts (symptoms p) \<ge> 7 * length (symptoms p)
      then ''Active stage - full symptom presentation''
      else ''Developing stage - symptoms progressing'')"
proof -
  have e: "(\<lambda>s. case earlySymptoms p of None \<Rightarrow> False | Some early \<Rightarrow> array_includes early s)
           = (\<lambda>s. s \<in> early_slugs p)"
    by (auto simp: early_slugs_def array_includes_iff fun_eq_iff split: option.splits)
  have pos: "length (filter (\<lambda>s. s \<in> early_slugs p) ts) > 0
               \<longleftrightarrow> (\<exists>s \<in> set ts. s \<in> early_slugs p)"
    by (simp add: filter_empty_conv)
  have t: "length (filter (\<lambda>s. array_includes (symptoms p) s) ts)
             = exact_matched ts (symptoms p)"
    by (simp add: exact_matched_def array_includes_iff)
  have pct: "real m \<ge> real n * 0.7 \<longleftrightarrow> 10 * m \<ge> 7 * n" for m n :: nat
  proof -
    have "real m \<ge> real n * 0.7 \<longleftrightarrow> real (7 * n) \<le> real (10 * m)"
      by (simp add: field_simps)
    also have "\<dots> \<longleftrightarrow> 7 * n \<le> 10 * m"
      by (rule of_nat_le_iff)
    finally show ?thesis .
  qed
  show ?thesis
    unfolding determineStage_def Let_def e pos t pct by simp
qed

theorem determineStage_cases_witness:
  "exact_matched [''mild-headache'', ''cough'', ''fatigue''] (symptoms flu) = 2
   \<and> determineStage [''mild-headache'', ''cough'', ''fatigue''] flu
       = ''Early stage - symptoms just beginning''
   \<and> determineStage [''fever'', ''headache'', ''fatigue'', ''cough''] flu
       = ''Active stage - full symptom presentation''
   \<and> determineStage [''fever'', ''headache'', ''cough''] flu
       = ''Developing stage - symptoms progressing''"
proof -
  have a: "exact_matched [''mild-headache'', ''cough'', ''fatigue''] (symptoms flu) = 2"
    and b: "exact_matched [''fever'', ''headache'', ''fatigue'', ''cough''] (symptoms flu) = 4"
    and c: "exact_matched [''fever'', ''headache'', ''cough''] (symptoms flu) = 3"
    by (simp_all add: exact_matched_def flu_def)
  have n: "length (symptoms flu) = 5" and es: "''fatigue'' \<in> early_slugs flu"
    and nes: "''fever'' \<notin> early_slugs flu" "''headache'' \<notin> early_slugs flu"
      "''cough'' \<notin> early_slugs flu"
    by (simp_all add: early_slugs_def flu_def)
  show ?thesis
    using determineStage_cases [of "[''mild-headache'', ''cough'', ''fatigue'']" flu]
      determineStage_cases [of "[''fever'', ''headache'', ''fatigue'', ''cough'']" flu]
      determineStage_cases [of "[''fever'', ''headache'', ''cough'']" flu]
    by (simp add: a b c n es nes)
qed

text \<open>
  The count of \<open>determineStage\<close> is not the count of the scorer: for the slugs below the
  scorer counts three matches (\<open>mild-headache\<close> contains \<open>headache\<close>), the stage is computed
  from two.
\<close>

lemma determineStage_not_scorer_count:
  "countMatches [''mild-headache'', ''cough'', ''fatigue''] (symptoms flu) = 3
   \<and> exact_matched [''mild-headache'', ''cough'', ''fatigue''] (symptoms flu) = 2"
  by (simp add: countMatches_def exact_matched_def flu_def)

subsection \<open>Disease prediction\<close>

lemma predictLoop_set:
  "set (predictLoop tbl ts) = {predictionOf d p ts | d p. (d, p) \<in> set tbl \<and> emits p ts}"
proof (induction tbl)
  case Nil
  show ?case by simp
next
  case (Cons e tbl)
  obtain d p where e: "e = (d, p)" by (cases e)
  show ?case
    unfolding e using Cons.IH
    by (auto simp: Let_def emits_def predictionOf_def)
qed

lemma earlyLoop_shape:
  "s \<in> set (earlyLoop tbl rs) \<Longrightarrow>
     \<exists>n. s = \<lparr>id_s = ''early_warning_'' @ n, priority = Medium, category = ''early_warning'',
                stage = None, confidence = Some (Num 70)\<rparr>"
proof (induction tbl)
  case Nil
  then show ?case by simp
next
  case (Cons e tbl)
  obtain n syms where e: "e = (n, syms)" by (cases e)
  from Cons show ?case
    unfolding e by (auto simp: Let_def split: if_splits)
qed

lemma detectEarlySymptoms_shape:
  "s \<in> set (detectEarlySymptoms now ss) \<Longrightarrow>
     \<exists>n. s = \<lparr>id_s = ''early_warning_'' @ n, priority = Medium, category = ''early_warning'',
                stage = None, confidence = Some (Num 70)\<rparr>"
  unfolding detectEarlySymptoms_def Let_def by (rule earlyLoop_shape)

lemma getDiseasePatterns_functional:
  "(d, p) \<in> set getDiseasePatterns \<Longrightarrow> (d, p') \<in> set getDiseasePatterns \<Longrightarrow> p = p'"
  by (auto simp: getDiseasePatterns_def)

lemma predictPotentialConditions_shape:
  assumes "s \<in> set (predictPotentialConditions now ss)"
  shows "(\<exists>d p. (d, p) \<in> set getDiseasePatterns \<and> emits p (map type ss)
                 \<and> s = predictionOf d p (map type ss))
         \<or> (\<exists>n. s = \<lparr>id_s = ''early_warning_'' @ n, priority = Medium,
                       category = ''early_warning'', stage = None,
                       confidence = Some (Num 70)\<rparr>)"
proof -
  from assms consider "s \<in> set (predictLoop getDiseasePatterns (map type ss))"
    | "s \<in> set (detectEarlySymptoms now ss)"
    by (auto simp: predictPotentialConditions_def Let_def)
  then show ?thesis
  proof cases
    case 1
    then show ?thesis by (auto simp: predictLoop_set)
  next
    case 2
    from detectEarlySymptoms_shape [OF this] show ?thesis by blast
  qed
qed

lemma prediction_in_predictPotentialConditions:
  assumes "(d, p) \<in> set getDiseasePatterns" and "emits p (map type ss)"
  shows "predictionOf d p (map type ss) \<in> set (predictPotentialConditions now ss)"
proof -
  from assms have "predictionOf d p (map type ss)
      \<in> set (predictLoop getDiseasePatterns (map type ss))"
    by (auto simp: predictLoop_set)
  then show ?thesis
    by (simp add: predictPotentialConditions_def Let_def)
qed

lemma emits_finite_score:
  assumes "emits p ts"
  shows "symptoms p \<noteq> []"
    and "calculatePatternMatch ts (symptoms p) =
           Num (real (countMatches ts (symptoms p)) / real (length (symptoms p)))"
proof -
  from assms have "countMatches ts (symptoms p) \<ge> 2" by (simp add: emits_def)
  then show ne: "symptoms p \<noteq> []" by (auto simp: countMatches_Nil)
  then show "calculatePatternMatch ts (symptoms p) =
           Num (real (countMatches ts (symptoms p)) / real (length (symptoms p)))"
    by (simp add: calculatePatternMatch_countMatches js_div_def)
qed

lemma sample_flu:
  "calculatePatternMatch (map type sample) (symptoms flu) = Num (3 / 5)"
  "countMatches (map type sample) (symptoms flu) = 3"
  by (simp_all add: sample_def flu_def calculatePatternMatch_def countMatches_def js_div_def)

lemma sample_predictions:
  "predictPotentialConditions sample_now sample =
     [\<lparr>id_s = ''disease_prediction_flu'', priority = Medium, category = ''prediction'',
       stage = Some ''Developing stage - symptoms progressing'',
       confidence = Some (Num 51)\<rparr>]"
  by (simp add: sample_def sample_now_def predictPotentialConditions_def getDiseasePatterns_def
       flu_def cold_def migraine_def gastroenteritis_def
       calculatePatternMatch_def countMatches_def js_div_def determineStage_def
       detectEarlySymptoms_def earlyPatterns_def daysBefore_def)

text \<open>
  C3. For every symptom list and every pattern of \<open>getDiseasePatterns\<close>, the output of
  \<open>predictPotentialConditions\<close> holds a prediction for the pattern exactly when the match
  score is at least the pattern's threshold and at least two user slugs are matched; if
  either condition fails, no prediction for the pattern is in the output.
\<close>

theorem prediction_emitted_iff:
  assumes "(disease, pattern) \<in> set getDiseasePatterns"
  shows "(\<exists>s \<in> set (predictPotentialConditions now ss).
            id_s s = ''disease_prediction_'' @ disease)
         \<longleftrightarrow> js_ge (calculatePatternMatch (map type ss) (symptoms pattern))
                  (Num (threshold pattern))
               \<and> countMatches (map type ss) (symptoms pattern) \<ge> 2"
proof
  assume "\<exists>s \<in> set (predictPotentialConditions now ss). id_s s = ''disease_prediction_'' @ disease"
  then obtain s where s: "s \<in> set (predictPotentialConditions now ss)"
    and sid: "id_s s = ''disease_prediction_'' @ disease" by blast
  from predictPotentialConditions_shape [OF s] have "emits pattern (map type ss)"
  proof (elim disjE exE conjE)
    fix d p assume dp: "(d, p) \<in> set getDiseasePatterns" and em: "emits p (map type ss)"
      and eq: "s = predictionOf d p (map type ss)"
    from eq sid have "d = disease" by (simp add: predictionOf_def)
    with dp assms have "p = pattern" by (auto dest: getDiseasePatterns_functional)
    with em show ?thesis by simp
  next
    fix n assume "s = \<lparr>id_s = ''early_warning_'' @ n, priority = Medium,
      category = ''early_warning'', stage = None, confidence = Some (Num 70)\<rparr>"
    with sid show ?thesis by simp
  qed
  then show "js_ge (calculatePatternMatch (map type ss) (symptoms pattern))
                  (Num (threshold pattern))
               \<and> countMatches (map type ss) (symptoms pattern) \<ge> 2"
    by (simp add: emits_def)
next
  assume "js_ge (calculatePatternMatch (map type ss) (symptoms pattern))
                  (Num (threshold pattern))
               \<and> countMatches (map type ss) (symptoms pattern) \<ge> 2"
  then have "emits pattern (map type ss)" by (simp add: emits_def)
  from prediction_in_predictPotentialConditions [OF assms this]
  have "predictionOf disease pattern (map type ss) \<in> set (predictPotentialConditions now ss)" .
  moreover have "id_s (predictionOf disease pattern (map type ss))
                   = ''disease_prediction_'' @ disease"
    by (simp add: predictionOf_def)
  ultimately show "\<exists>s \<in> set (predictPotentialConditions now ss).
            id_s s = ''disease_prediction_'' @ disease" by blast
qed

theorem prediction_emitted_iff_witness:
  "(''flu'', flu) \<in> set getDiseasePatterns
   \<and> (\<exists>s \<in> set (predictPotentialConditions sample_now sample).
         id_s s = ''disease_prediction_flu'')
   \<and> \<not> (\<exists>s \<in> set (predictPotentialConditions sample_now
                      [\<lparr>type = ''fever'', severity = 5, timestamp = None\<rparr>]).
            id_s s = ''disease_prediction_flu'')"
proof -
  have tbl: "(''flu'', flu) \<in> set getDiseasePatterns"
    by (simp add: getDiseasePatterns_def)
  have yes: "js_ge (calculatePatternMatch (map type sample) (symptoms flu)) (Num (threshold flu))
             \<and> countMatches (map type sample) (symptoms flu) \<ge> 2"
    by (simp add: sample_flu) (simp add: flu_def)
  have no: "\<not> countMatches (map type [\<lparr>type = ''fever'', severity = 5, timestamp = None\<rparr>])
                 (symptoms flu) \<ge> 2"
    by (simp add: countMatches_def flu_def)
  show ?thesis
    using tbl yes no
      prediction_emitted_iff [OF tbl, of sample_now sample]
      prediction_emitted_iff [OF tbl, of sample_now
        "[\<lparr>type = ''fever'', severity = 5, timestamp = None\<rparr>]"]
    by simp
qed

lemma Math_round_min_le:
  "Math_round (Math_min 95 (js_mul (Num sc) m)) = Num (of_int (round (min 95 (sc * m))))
   \<and> round (min 95 (sc * m)) \<le> 95"
proof -
  have "round (min 95 (sc * m)) \<le> round (95 :: real)"
    by (rule round_mono) simp
  then show ?thesis by (simp add: round_def)
qed

text \<open>
  C4. Every disease prediction in the output of \<open>predictPotentialConditions\<close> belongs to a
  pattern of \<open>getDiseasePatterns\<close> whose match score is a finite number, and its confidence
  is that score times the pattern's multiplier, capped at 95 and rounded; so it is at
  most 95.
\<close>

theorem prediction_confidence:
  assumes "s \<in> set (predictPotentialConditions now ss)" and "category s = ''prediction''"
  shows "\<exists>disease pattern matchScore.
           (disease, pattern) \<in> set getDiseasePatterns
           \<and> id_s s = ''disease_prediction_'' @ disease
           \<and> calculatePatternMatch (map type ss) (symptoms pattern) = Num matchScore
           \<and> confidence s =
               Some (Num (of_int (round (min 95 (matchScore * confidenceMultiplier pattern)))))
           \<and> round (min 95 (matchScore * confidenceMultiplier pattern)) \<le> 95"
  using predictPotentialConditions_shape [OF assms(1)]
proof (elim disjE exE conjE)
  fix d p assume dp: "(d, p) \<in> set getDiseasePatterns" and em: "emits p (map type ss)"
    and eq: "s = predictionOf d p (map type ss)"
  from emits_finite_score(2) [OF em] obtain sc
    where sc: "calculatePatternMatch (map type ss) (symptoms p) = Num sc" by blast
  have "id_s s = ''disease_prediction_'' @ d"
    by (simp add: eq predictionOf_def)
  moreover have "confidence s = Some (Num (of_int (round (min 95 (sc * confidenceMultiplier p)))))"
    using Math_round_min_le [of sc "confidenceMultiplier p"]
    by (simp add: eq predictionOf_def sc)
  moreover have "round (min 95 (sc * confidenceMultiplier p)) \<le> 95"
    using Math_round_min_le [of sc "confidenceMultiplier p"] by simp
  ultimately show ?thesis using dp sc by blast
next
  fix n assume "s = \<lparr>id_s = ''early_warning_'' @ n, priority = Medium,
    category = ''early_warning'', stage = None, confidence = Some (Num 70)\<rparr>"
  with assms(2) show ?thesis by simp
qed

theorem prediction_confidence_witness:
  "\<lparr>id_s = ''disease_prediction_flu'', priority = Medium, category = ''prediction'',
     stage = Some ''Developing stage - symptoms progressing'', confidence = Some (Num 51)\<rparr>
     \<in> set (predictPotentialConditions sample_now sample)
   \<and> (\<exists>disease pattern matchScore.
         (disease, pattern) \<in> set getDiseasePatterns
         \<and> ''disease_prediction_flu'' = ''disease_prediction_'' @ disease
         \<and> calculatePatternMatch (map type sample) (symptoms pattern) = Num matchScore
         \<and> Num 51 = Num (of_int (round (min 95 (matchScore * confidenceMultiplier pattern))))
         \<and> round (min 95 (matchScore * confidenceMultiplier pattern)) \<le> 95)"
proof -
  let ?s = "\<lparr>id_s = ''disease_prediction_flu'', priority = Medium, category = ''prediction'',
       stage = Some ''Developing stage - symptoms progressing'',
       confidence = Some (Num 51)\<rparr>"
  have m: "?s \<in> set (predictPotentialConditions sample_now sample)"
    by (simp add: sample_predictions)
  have c: "category ?s = ''prediction''" by simp
  from prediction_confidence [OF m c] m show ?thesis by simp
qed

subsection \<open>Deduplication and ordering\<close>

lemma findIndex_ge: "findIndex P xs \<ge> - 1"
  by (induction xs) (auto simp: Let_def)

lemma findIndex_eq_iff:
  "findIndex P xs = int i \<longleftrightarrow> i < length xs \<and> P (xs ! i) \<and> (\<forall>j < i. \<not> P (xs ! j))"
proof (induction xs arbitrary: i)
  case Nil
  show ?case by simp
next
  case (Cons x xs)
  show ?case
  proof (cases "P x")
    case True
    then show ?thesis by (cases i) auto
  next
    case False
    show ?thesis
    proof (cases i)
      case 0
      with False findIndex_ge [of P xs] show ?thesis by (auto simp: Let_def)
    next
      case (Suc k)
      have "findIndex P (x # xs) = int (Suc k) \<longleftrightarrow> findIndex P xs = int k"
        using False findIndex_ge [of P xs] by (auto simp: Let_def)
      also have "\<dots> \<longleftrightarrow> k < length xs \<and> P (xs ! k) \<and> (\<forall>j < k. \<not> P (xs ! j))"
        by (rule Cons.IH)
      also have "\<dots> \<longleftrightarrow> Suc k < length (x # xs) \<and> P ((x # xs) ! Suc k)
                         \<and> (\<forall>j < Suc k. \<not> P ((x # xs) ! j))"
        using False by (auto simp: less_Suc_eq_0_disj)
      finally show ?thesis using Suc by simp
    qed
  qed
qed

lemma unique_subseq: "subseq (unique xs) xs"
proof -
  let ?Q = "\<lambda>(index, item). int index = findIndex (\<lambda>s. id_s s = id_s item) xs"
  have "subseq (map snd (filter ?Q (enumerate 0 xs))) (map snd (enumerate 0 xs))"
    by (intro subseq_map subseq_filter_left)
  then show ?thesis by (simp add: unique_def)
qed

text \<open>An item survives the deduplication exactly when no earlier item has its id.\<close>

lemma in_set_unique:
  "x \<in> set (unique xs) \<longleftrightarrow>
     (\<exists>i < length xs. xs ! i = x \<and> (\<forall>j < i. id_s (xs ! j) \<noteq> id_s x))"
proof -
  have "x \<in> set (unique xs) \<longleftrightarrow>
          (\<exists>i. (i, x) \<in> set (enumerate 0 xs) \<and> findIndex (\<lambda>s. id_s s = id_s x) xs = int i)"
    by (auto simp: unique_def image_iff)
  also have "\<dots> \<longleftrightarrow> (\<exists>i < length xs. xs ! i = x \<and> (\<forall>j < i. id_s (xs ! j) \<noteq> id_s x))"
    by (auto simp: in_set_enumerate_eq findIndex_eq_iff)
  finally show ?thesis .
qed

lemma set_unique_subset: "set (unique xs) \<subseteq> set xs"
  by (auto simp: in_set_unique)

lemma unique_first:
  assumes "\<forall>a \<in> set as. id_s a \<noteq> id_s x"
  shows "x \<in> set (unique (as @ x # bs))"
proof -
  have "(as @ x # bs) ! length as = x" by simp
  moreover have "id_s ((as @ x # bs) ! j) \<noteq> id_s x" if "j < length as" for j
    using that assms by (simp add: nth_append)
  ultimately show ?thesis
    unfolding in_set_unique by (intro exI [of _ "length as"]) simp
qed

lemma unique_distinct:
  assumes "distinct (map id_s xs)"
  shows "unique xs = xs"
proof -
  let ?Q = "\<lambda>(index, item). int index = findIndex (\<lambda>s. id_s s = id_s item) xs"
  have "?Q e" if "e \<in> set (enumerate 0 xs)" for e
  proof -
    obtain i x where e: "e = (i, x)" by (cases e)
    from that have i: "i < length xs" and x: "xs ! i = x"
      by (auto simp: e in_set_enumerate_eq)
    have "id_s (xs ! j) \<noteq> id_s x" if "j < i" for j
    proof -
      from that i have "map id_s xs ! j \<noteq> map id_s xs ! i"
        using assms by (auto simp: distinct_conv_nth simp del: nth_map)
      with that i x show ?thesis by simp
    qed
    with i x have "findIndex (\<lambda>s. id_s s = id_s x) xs = int i"
      by (simp add: findIndex_eq_iff)
    then show ?thesis by (simp add: e)
  qed
  then have "filter ?Q (enumerate 0 xs) = enumerate 0 xs"
    by (simp add: filter_id_conv)
  then show ?thesis by (simp add: unique_def)
qed

lemma priorityOrder_inj: "priorityOrder p = priorityOrder q \<longleftrightarrow> p = q"
  by (cases p; cases q) (simp_all add: priorityOrder_def)

lemma set_prioritizeAndFormat: "set (prioritizeAndFormat xs) = set (unique xs)"
  by (simp add: prioritizeAndFormat_def)

text \<open>
  C6. The ranks are critical 0, high 1, medium 2, low 3. For every list of suggestions the
  result of \<open>prioritizeAndFormat\<close> is sorted by rank, and the sort is stable: the
  suggestions of one priority stand in the result in the order in which they stand in the
  deduplicated input, which is a subsequence of the input (the input itself when no id
  occurs twice).
\<close>

theorem prioritizeAndFormat_sorted_stable:
  "priorityOrder Critical = 0 \<and> priorityOrder High = 1
   \<and> priorityOrder Medium = 2 \<and> priorityOrder Low = 3
   \<and> sorted (map (\<lambda>s. priorityOrder (priority s)) (prioritizeAndFormat xs))
   \<and> (\<forall>p. filter (\<lambda>s. priority s = p) (prioritizeAndFormat xs)
           = filter (\<lambda>s. priority s = p) (unique xs))
   \<and> subseq (unique xs) xs
   \<and> (distinct (map id_s xs) \<longrightarrow> unique xs = xs)"
proof -
  have st: "filter (\<lambda>s. priority s = p) (prioritizeAndFormat xs)
           = filter (\<lambda>s. priority s = p) (unique xs)" for p
    using sort_key_stable [of "\<lambda>s. priorityOrder (priority s)" "priorityOrder p" "unique xs"]
    by (simp add: prioritizeAndFormat_def priorityOrder_inj)
  have so: "sorted (map (\<lambda>s. priorityOrder (priority s)) (prioritizeAndFormat xs))"
    by (simp add: prioritizeAndFormat_def)
  show ?thesis
    using st so unique_subseq [of xs] unique_distinct [of xs]
    by (simp add: priorityOrder_def)
qed

theorem prioritizeAndFormat_sorted_stable_witness:
  "distinct (map id_s
     [\<lparr>id_s = ''a'', priority = Low, category = ''x'', stage = None, confidence = None\<rparr>,
      \<lparr>id_s = ''b'', priority = High, category = ''x'', stage = None, confidence = None\<rparr>,
      \<lparr>id_s = ''c'', priority = Low, category = ''x'', stage = None, confidence = None\<rparr>,
      \<lparr>id_s = ''d'', priority = Critical, category = ''x'', stage = None, confidence = None\<rparr>])
   \<and> filter (\<lambda>s. priority s = Low) (prioritizeAndFormat
     [\<lparr>id_s = ''a'', priority = Low, category = ''x'', stage = None, confidence = None\<rparr>,
      \<lparr>id_s = ''b'', priority = High, category = ''x'', stage = None, confidence = None\<rparr>,
      \<lparr>id_s = ''c'', priority = Low, category = ''x'', stage = None, confidence = None\<rparr>,
      \<lparr>id_s = ''d'', priority = Critical, category = ''x'', stage = None, confidence = None\<rparr>])
     = [\<lparr>id_s = ''a'', priority = Low, category = ''x'', stage = None, confidence = None\<rparr>,
        \<lparr>id_s = ''c'', priority = Low, category = ''x'', stage = None, confidence = None\<rparr>]"
proof -
  let ?xs = "[\<lparr>id_s = ''a'', priority = Low, category = ''x'', stage = None, confidence = None\<rparr>,
      \<lparr>id_s = ''b'', priority = High, category = ''x'', stage = None, confidence = None\<rparr>,
      \<lparr>id_s = ''c'', priority = Low, category = ''x'', stage = None, confidence = None\<rparr>,
      \<lparr>id_s = ''d'', priority = Critical, category = ''x'', stage = None, confidence = None\<rparr>]"
  have d: "distinct (map id_s ?xs)" by simp
  with prioritizeAndFormat_sorted_stable [of ?xs] have u: "unique ?xs = ?xs" by blast
  from prioritizeAndFormat_sorted_stable [of ?xs]
  have "filter (\<lambda>s. priority s = Low) (prioritizeAndFormat ?xs)
          = filter (\<lambda>s. priority s = Low) (unique ?xs)" by blast
  with u d show ?thesis by simp
qed

text \<open>An example with a repeated id: the second \<open>b\<close> is dropped, ties keep their order.\<close>

lemma prioritizeAndFormat_example:
  "map id_s (prioritizeAndFormat
     [\<lparr>id_s = ''a'', priority = Low, category = ''x'', stage = None, confidence = None\<rparr>,
      \<lparr>id_s = ''b'', priority = High, category = ''x'', stage = None, confidence = None\<rparr>,
      \<lparr>id_s = ''c'', priority = Low, category = ''x'', stage = None, confidence = None\<rparr>,
      \<lparr>id_s = ''d'', priority = Critical, category = ''x'', stage = None, confidence = None\<rparr>,
      \<lparr>id_s = ''b'', priority = Medium, category = ''x'', stage = None, confidence = None\<rparr>,
      \<lparr>id_s = ''e'', priority = High, category = ''x'', stage = None, confidence = None\<rparr>])
   = [''d'', ''b'', ''e'', ''a'', ''c'']"
  by (simp add: prioritizeAndFormat_def unique_def priorityOrder_def)

subsection \<open>The aggregator\<close>

text \<open>The ids that each sub-analysis gives to its suggestions.\<close>

lemma assessEmergencySymptoms_shape:
  "s \<in> set (assessEmergencySymptoms ss) \<Longrightarrow> id_s s = ''emergency_care''"
  by (auto simp: assessEmergencySymptoms_def Let_def split: if_splits)

lemma analyzeSymptomPatterns_shape:
  "s \<in> set (analyzeSymptomPatterns ss) \<Longrightarrow>
     id_s s = ''infection_pattern'' \<or> id_s s = ''respiratory_pattern''"
  by (auto simp: analyzeSymptomPatterns_def Let_def split: if_splits)

lemma generateSymptomManagement_shape:
  "generateSymptomManagement hk ss = Inr m \<Longrightarrow> s \<in> set m \<Longrightarrow> \<exists>t. id_s s = ''manage_'' @ t"
proof (induction ss arbitrary: m)
  case Nil
  then show ?case by simp
next
  case (Cons a ss)
  then show ?case
    by (auto simp: Let_def split: property.splits sum.splits)
qed

lemma generatePreventiveCare_shape:
  "s \<in> set (generatePreventiveCare ss) \<Longrightarrow> id_s s = ''preventive_care''"
  by (auto simp: generatePreventiveCare_def Let_def split: if_splits)

lemma medicationsFor_shape:
  "medicationsFor hk t meds = Inr m \<Longrightarrow> s \<in> set m \<Longrightarrow> \<exists>n. id_s s = ''medication_'' @ n"
proof (induction meds arbitrary: m)
  case Nil
  then show ?case by simp
next
  case (Cons a meds)
  then show ?case
    by (auto simp: Let_def split: property.splits sum.splits)
qed

lemma generateMedicationSuggestions_shape:
  "generateMedicationSuggestions hk ss = Inr m \<Longrightarrow> s \<in> set m
     \<Longrightarrow> \<exists>n. id_s s = ''medication_'' @ n"
proof (induction ss arbitrary: m)
  case Nil
  then show ?case by simp
next
  case (Cons a ss)
  show ?case
  proof (cases "getProperty medicationMap (type a)")
    case (Own meds)
    with Cons.prems(1) obtain here more where h: "medicationsFor hk (type a) meds = Inr here"
      and r: "generateMedicationSuggestions hk ss = Inr more" and m: "m = here @ more"
      by (auto split: sum.splits)
    from Cons.prems(2) m consider "s \<in> set here" | "s \<in> set more" by auto
    then show ?thesis
    proof cases
      case 1
      with h show ?thesis by (rule medicationsFor_shape)
    next
      case 2
      with r show ?thesis by (rule Cons.IH)
    qed
  next
    case Inherited
    with Cons.prems(1) show ?thesis by simp
  next
    case Undefined
    with Cons.prems(1) have "generateMedicationSuggestions hk ss = Inr m" by simp
    then show ?thesis using Cons.prems(2) by (rule Cons.IH)
  qed
qed

text \<open>
  The two analyses that read the knowledge base return normally when no symptom type is the
  name of a member of \<open>Object.prototype\<close>.
\<close>

lemma generateSymptomManagement_total:
  "\<forall>s \<in> set ss. \<not> array_includes objectPrototypeKeys (type s) \<Longrightarrow>
     \<exists>m. generateSymptomManagement hk ss = Inr m"
proof (induction ss)
  case Nil
  show ?case by simp
next
  case (Cons a ss)
  then obtain m where "generateSymptomManagement hk ss = Inr m" by auto
  with Cons.prems show ?case
    by (auto simp: getProperty_def Let_def split: option.splits)
qed

lemma medicationsFor_total:
  "\<forall>n \<in> set meds. \<not> array_includes objectPrototypeKeys n \<Longrightarrow>
     \<exists>m. medicationsFor hk t meds = Inr m"
proof (induction meds)
  case Nil
  show ?case by simp
next
  case (Cons a meds)
  then obtain m where "medicationsFor hk t meds = Inr m" by auto
  with Cons.prems show ?case
    by (auto simp: getProperty_def Let_def split: option.splits)
qed

lemma medicationMap_names:
  "medicationMap t = Some meds \<Longrightarrow> \<forall>n \<in> set meds. \<not> array_includes objectPrototypeKeys n"
  by (auto simp: medicationMap_def objectPrototypeKeys_def split: if_splits)

lemma generateMedicationSuggestions_total:
  "\<forall>s \<in> set ss. \<not> array_includes objectPrototypeKeys (type s) \<Longrightarrow>
     \<exists>m. generateMedicationSuggestions hk ss = Inr m"
proof (induction ss)
  case Nil
  show ?case by simp
next
  case (Cons a ss)
  then obtain m where m: "generateMedicationSuggestions hk ss = Inr m" by auto
  show ?case
  proof (cases "medicationMap (type a)")
    case None
    with Cons.prems m show ?thesis by (simp add: getProperty_def)
  next
    case (Some meds)
    from medicationsFor_total [OF medicationMap_names [OF Some]]
    obtain h where "medicationsFor hk (type a) meds = Inr h" by blast
    with Some m show ?thesis by (simp add: getProperty_def)
  qed
qed

lemma generateIntelligentSuggestions_Some:
  assumes "generateSymptomManagement hk ss = Inr mg"
    and "generateMedicationSuggestions hk ss = Inr md"
  shows "generateIntelligentSuggestions (Some hk) now ss rs =
     Inr (prioritizeAndFormat
       (assessEmergencySymptoms (ss @ rs)
        @ filter (\<lambda>s. js_ge (confidenceOrZero s) (Num 60))
            (predictPotentialConditions now (ss @ rs))
        @ analyzeSymptomPatterns (ss @ rs)
        @ filter (\<lambda>s. priority s \<noteq> Low \<or> js_ge (confidenceOrZero s) (Num 70)) mg
        @ generatePreventiveCare (ss @ rs) @ md))"
  using assms by (simp add: generateIntelligentSuggestions_def Let_def)

lemma generateIntelligentSuggestions_Inr:
  assumes "generateIntelligentSuggestions (Some hk) now ss rs = Inr out"
  obtains mg md where "generateSymptomManagement hk ss = Inr mg"
    and "generateMedicationSuggestions hk ss = Inr md"
    and "out = prioritizeAndFormat
       (assessEmergencySymptoms (ss @ rs)
        @ filter (\<lambda>s. js_ge (confidenceOrZero s) (Num 60))
            (predictPotentialConditions now (ss @ rs))
        @ analyzeSymptomPatterns (ss @ rs)
        @ filter (\<lambda>s. priority s \<noteq> Low \<or> js_ge (confidenceOrZero s) (Num 70)) mg
        @ generatePreventiveCare (ss @ rs) @ md)"
  using assms by (auto simp: generateIntelligentSuggestions_def Let_def split: sum.splits)

lemma generateIntelligentSuggestions_total:
  assumes "\<forall>s \<in> set ss. \<not> array_includes objectPrototypeKeys (type s)"
  shows "\<exists>out. generateIntelligentSuggestions (Some hk) now ss rs = Inr out"
proof -
  from generateSymptomManagement_total [OF assms]
  obtain mg where mg: "generateSymptomManagement hk ss = Inr mg" by blast
  from generateMedicationSuggestions_total [OF assms]
  obtain md where md: "generateMedicationSuggestions hk ss = Inr md" by blast
  from generateIntelligentSuggestions_Some [OF mg md] show ?thesis by blast
qed

text \<open>A symptom logged under the name \<open>constructor\<close> makes the call fail.\<close>

lemma generateIntelligentSuggestions_TypeError:
  "generateIntelligentSuggestions (Some getDefaultKnowledge) now
     [\<lparr>type = ''constructor'', severity = 5, timestamp = None\<rparr>] [] = Inl TypeError"
  by (simp add: generateIntelligentSuggestions_def getDefaultKnowledge_def getProperty_def
        objectPrototypeKeys_def Let_def)

text \<open>
  C9. While the knowledge base is not loaded, the aggregator returns, for every input and
  without failing, the list of exactly one placeholder, whose id is \<open>loading\<close>.
\<close>

theorem loading_placeholder:
  "generateIntelligentSuggestions None now ss rs =
     Inr [\<lparr>id_s = ''loading'', priority = Low, category = ''system'', stage = None,
            confidence = None\<rparr>]"
  by (simp add: generateIntelligentSuggestions_def getBasicSuggestions_def)

theorem loading_placeholder_witness:
  "generateIntelligentSuggestions None sample_now sample sample =
     Inr [\<lparr>id_s = ''loading'', priority = Low, category = ''system'', stage = None,
            confidence = None\<rparr>]"
  using loading_placeholder [of sample_now sample sample] .

text \<open>
  C8. With a knowledge base loaded, the records fever (severity 5) and headache (severity 4)
  make the aggregator return a list that holds the suggestion \<open>infection_pattern\<close> with
  priority high and confidence 85: for every knowledge base, every time of the call, all
  timestamps of the two records and every list of recent records.
\<close>

theorem infection_pattern_example:
  "\<exists>out. generateIntelligentSuggestions (Some hk) now
            [\<lparr>type = ''fever'', severity = 5, timestamp = t1\<rparr>,
             \<lparr>type = ''headache'', severity = 4, timestamp = t2\<rparr>] rs = Inr out
         \<and> \<lparr>id_s = ''infection_pattern'', priority = High, category = ''diagnosis'',
             stage = None, confidence = Some (Num 85)\<rparr> \<in> set out"
proof -
  let ?ss = "[\<lparr>type = ''fever'', severity = 5, timestamp = t1\<rparr>,
             \<lparr>type = ''headache'', severity = 4, timestamp = t2\<rparr>]"
  let ?inf = "\<lparr>id_s = ''infection_pattern'', priority = High, category = ''diagnosis'',
             stage = None, confidence = Some (Num 85)\<rparr>"
  let ?as = "assessEmergencySymptoms (?ss @ rs)
         @ filter (\<lambda>s. js_ge (confidenceOrZero s) (Num 60))
             (predictPotentialConditions now (?ss @ rs))"
  have ok: "\<forall>s \<in> set ?ss. \<not> array_includes objectPrototypeKeys (type s)"
    by (simp add: objectPrototypeKeys_def)
  from generateSymptomManagement_total [OF ok]
  obtain mg where mg: "generateSymptomManagement hk ?ss = Inr mg" by blast
  from generateMedicationSuggestions_total [OF ok]
  obtain md where md: "generateMedicationSuggestions hk ?ss = Inr md" by blast
  obtain pats where pats: "analyzeSymptomPatterns (?ss @ rs) = ?inf # pats"
    by (simp add: analyzeSymptomPatterns_def Let_def)
  let ?bs = "pats @ filter (\<lambda>s. priority s \<noteq> Low \<or> js_ge (confidenceOrZero s) (Num 70)) mg
         @ generatePreventiveCare (?ss @ rs) @ md"
  have out: "generateIntelligentSuggestions (Some hk) now ?ss rs
               = Inr (prioritizeAndFormat (?as @ ?inf # ?bs))"
    unfolding generateIntelligentSuggestions_Some [OF mg md] pats by simp
  have "id_s a \<noteq> id_s ?inf" if "a \<in> set ?as" for a
  proof -
    from that consider "a \<in> set (assessEmergencySymptoms (?ss @ rs))"
      | "a \<in> set (predictPotentialConditions now (?ss @ rs))" by auto
    then show ?thesis
    proof cases
      case 1
      from assessEmergencySymptoms_shape [OF this] show ?thesis by simp
    next
      case 2
      from predictPotentialConditions_shape [OF this] show ?thesis
        by (auto simp: predictionOf_def)
    qed
  qed
  then have "?inf \<in> set (unique (?as @ ?inf # ?bs))"
    by (intro unique_first) blast
  then have "?inf \<in> set (prioritizeAndFormat (?as @ ?inf # ?bs))"
    by (simp only: set_prioritizeAndFormat)
  with out show ?thesis by blast
qed

theorem infection_pattern_example_witness:
  "\<exists>out. generateIntelligentSuggestions (Some getDefaultKnowledge) sample_now
            [\<lparr>type = ''fever'', severity = 5, timestamp = Some 1699996400000\<rparr>,
             \<lparr>type = ''headache'', severity = 4, timestamp = Some 1699996400000\<rparr>] [] = Inr out
         \<and> \<lparr>id_s = ''infection_pattern'', priority = High, category = ''diagnosis'',
             stage = None, confidence = Some (Num 85)\<rparr> \<in> set out"
  using infection_pattern_example
          [of getDefaultKnowledge sample_now "Some 1699996400000" "Some 1699996400000" "[]"] .

lemma confidenceOrZero_ge:
  "confidence s = Some c \<Longrightarrow> js_ge (confidenceOrZero s) (Num 60) = js_ge c (Num 60)"
  by (cases c) (simp_all add: confidenceOrZero_def)

text \<open>The aggregator on the running example, analysis by analysis.\<close>

lemma sample_emergency: "assessEmergencySymptoms sample = []"
  by (simp add: sample_def assessEmergencySymptoms_def)

lemma sample_patterns:
  "analyzeSymptomPatterns sample =
     [\<lparr>id_s = ''infection_pattern'', priority = High, category = ''diagnosis'',
       stage = None, confidence = Some (Num 85)\<rparr>,
      \<lparr>id_s = ''respiratory_pattern'', priority = High, category = ''diagnosis'',
       stage = None, confidence = Some (Num 80)\<rparr>]"
  by (simp add: sample_def analyzeSymptomPatterns_def)

lemma sample_management:
  "generateSymptomManagement getDefaultKnowledge sample =
     Inr [\<lparr>id_s = ''manage_headache'', priority = Medium, category = ''treatment'',
            stage = None, confidence = Some (Num 75)\<rparr>]"
  by (simp add: sample_def getDefaultKnowledge_def getProperty_def objectPrototypeKeys_def
        categorizeSeverity_def)

lemma sample_preventive:
  "generatePreventiveCare sample =
     [\<lparr>id_s = ''preventive_care'', priority = Low, category = ''prevention'',
       stage = None, confidence = Some (Num 70)\<rparr>]"
  by (simp add: sample_def generatePreventiveCare_def)

lemma sample_medication:
  "generateMedicationSuggestions getDefaultKnowledge sample =
     Inr [\<lparr>id_s = ''medication_acetaminophen_fever'', priority = Medium,
            category = ''medication'', stage = None, confidence = Some (Num 85)\<rparr>,
          \<lparr>id_s = ''medication_acetaminophen_headache'', priority = Medium,
            category = ''medication'', stage = None, confidence = Some (Num 85)\<rparr>]"
  by (simp add: sample_def getDefaultKnowledge_def getProperty_def objectPrototypeKeys_def
        medicationMap_def)

lemma sample_prioritized:
  "prioritizeAndFormat
     [\<lparr>id_s = ''infection_pattern'', priority = High, category = ''diagnosis'',
       stage = None, confidence = Some (Num 85)\<rparr>,
      \<lparr>id_s = ''respiratory_pattern'', priority = High, category = ''diagnosis'',
       stage = None, confidence = Some (Num 80)\<rparr>,
      \<lparr>id_s = ''manage_headache'', priority = Medium, category = ''treatment'',
       stage = None, confidence = Some (Num 75)\<rparr>,
      \<lparr>id_s = ''preventive_care'', priority = Low, category = ''prevention'',
       stage = None, confidence = Some (Num 70)\<rparr>,
      \<lparr>id_s = ''medication_acetaminophen_fever'', priority = Medium,
       category = ''medication'', stage = None, confidence = Some (Num 85)\<rparr>,
      \<lparr>id_s = ''medication_acetaminophen_headache'', priority = Medium,
       category = ''medication'', stage = None, confidence = Some (Num 85)\<rparr>]
   = [\<lparr>id_s = ''infection_pattern'', priority = High, category = ''diagnosis'',
       stage = None, confidence = Some (Num 85)\<rparr>,
      \<lparr>id_s = ''respiratory_pattern'', priority = High, category = ''diagnosis'',
       stage = None, confidence = Some (Num 80)\<rparr>,
      \<lparr>id_s = ''manage_headache'', priority = Medium, category = ''treatment'',
       stage = None, confidence = Some (Num 75)\<rparr>,
      \<lparr>id_s = ''medication_acetaminophen_fever'', priority = Medium,
       category = ''medication'', stage = None, confidence = Some (Num 85)\<rparr>,
      \<lparr>id_s = ''medication_acetaminophen_headache'', priority = Medium,
       category = ''medication'', stage = None, confidence = Some (Num 85)\<rparr>,
      \<lparr>id_s = ''preventive_care'', priority = Low, category = ''prevention'',
       stage = None, confidence = Some (Num 70)\<rparr>]"
  by (simp add: prioritizeAndFormat_def unique_def priorityOrder_def)

lemma sample_suggestions:
  "generateIntelligentSuggestions (Some getDefaultKnowledge) sample_now sample [] =
     Inr [\<lparr>id_s = ''infection_pattern'', priority = High, category = ''diagnosis'',
            stage = None, confidence = Some (Num 85)\<rparr>,
          \<lparr>id_s = ''respiratory_pattern'', priority = High, category = ''diagnosis'',
            stage = None, confidence = Some (Num 80)\<rparr>,
          \<lparr>id_s = ''manage_headache'', priority = Medium, category = ''treatment'',
            stage = None, confidence = Some (Num 75)\<rparr>,
          \<lparr>id_s = ''medication_acetaminophen_fever'', priority = Medium,
            category = ''medication'', stage = None, confidence = Some (Num 85)\<rparr>,
          \<lparr>id_s = ''medication_acetaminophen_headache'', priority = Medium,
            category = ''medication'', stage = None, confidence = Some (Num 85)\<rparr>,
          \<lparr>id_s = ''preventive_care'', priority = Low, category = ''prevention'',
            stage = None, confidence = Some (Num 70)\<rparr>]"
  unfolding generateIntelligentSuggestions_Some [OF sample_management sample_medication]
  by (simp add: sample_emergency sample_predictions sample_patterns sample_preventive
        sample_prioritized confidenceOrZero_def)

text \<open>
  C10. The aggregator keeps a disease prediction only if its confidence is at least 60: when
  the confidence computed for a pattern of \<open>getDiseasePatterns\<close> is below 60, the final list
  holds no prediction for that pattern, whether or not the pattern meets the two emission
  conditions. On the running example the flu pattern meets both conditions (score 3/5,
  three matches), its confidence is 51, and the final list has no prediction for it.
\<close>

theorem low_confidence_prediction_dropped:
  assumes tbl: "(disease, pattern) \<in> set getDiseasePatterns"
    and out: "generateIntelligentSuggestions (Some hk) now ss rs = Inr out"
    and low: "\<not> js_ge (Math_round (Math_min 95
                 (js_mul (calculatePatternMatch (map type (ss @ rs)) (symptoms pattern))
                    (confidenceMultiplier pattern)))) (Num 60)"
  shows "\<forall>s \<in> set out. id_s s \<noteq> ''disease_prediction_'' @ disease"
proof
  fix s assume s: "s \<in> set out"
  from out obtain mg md where mg: "generateSymptomManagement hk ss = Inr mg"
    and md: "generateMedicationSuggestions hk ss = Inr md"
    and outeq: "out = prioritizeAndFormat
        (assessEmergencySymptoms (ss @ rs)
         @ filter (\<lambda>s. js_ge (confidenceOrZero s) (Num 60))
             (predictPotentialConditions now (ss @ rs))
         @ analyzeSymptomPatterns (ss @ rs)
         @ filter (\<lambda>s. priority s \<noteq> Low \<or> js_ge (confidenceOrZero s) (Num 70)) mg
         @ generatePreventiveCare (ss @ rs) @ md)"
    by (rule generateIntelligentSuggestions_Inr)
  from s have "s \<in> set (assessEmergencySymptoms (ss @ rs)
         @ filter (\<lambda>s. js_ge (confidenceOrZero s) (Num 60))
             (predictPotentialConditions now (ss @ rs))
         @ analyzeSymptomPatterns (ss @ rs)
         @ filter (\<lambda>s. priority s \<noteq> Low \<or> js_ge (confidenceOrZero s) (Num 70)) mg
         @ generatePreventiveCare (ss @ rs) @ md)"
    unfolding outeq set_prioritizeAndFormat using set_unique_subset by blast
  then consider
      (em) "s \<in> set (assessEmergencySymptoms (ss @ rs))"
    | (pr) "s \<in> set (predictPotentialConditions now (ss @ rs))"
           "js_ge (confidenceOrZero s) (Num 60)"
    | (pa) "s \<in> set (analyzeSymptomPatterns (ss @ rs))"
    | (mg) "s \<in> set mg"
    | (pv) "s \<in> set (generatePreventiveCare (ss @ rs))"
    | (md) "s \<in> set md"
    by auto
  then show "id_s s \<noteq> ''disease_prediction_'' @ disease"
  proof cases
    case em
    from assessEmergencySymptoms_shape [OF this] show ?thesis by simp
  next
    case pr
    from predictPotentialConditions_shape [OF pr(1)] show ?thesis
    proof (elim disjE exE conjE)
      fix d p assume dp: "(d, p) \<in> set getDiseasePatterns"
        and eq: "s = predictionOf d p (map type (ss @ rs))"
      show ?thesis
      proof
        assume "id_s s = ''disease_prediction_'' @ disease"
        with eq have "d = disease" by (simp add: predictionOf_def)
        with dp tbl have "p = pattern" by (auto dest: getDiseasePatterns_functional)
        with eq have "confidence s = Some (Math_round (Math_min 95
                 (js_mul (calculatePatternMatch (map type (ss @ rs)) (symptoms pattern))
                    (confidenceMultiplier pattern))))"
          by (simp add: predictionOf_def)
        from confidenceOrZero_ge [OF this] pr(2) low show False by simp
      qed
    next
      fix n assume "s = \<lparr>id_s = ''early_warning_'' @ n, priority = Medium,
        category = ''early_warning'', stage = None, confidence = Some (Num 70)\<rparr>"
      then show ?thesis by simp
    qed
  next
    case pa
    from analyzeSymptomPatterns_shape [OF this] show ?thesis by auto
  next
    case mg
    from generateSymptomManagement_shape
           [OF \<open>generateSymptomManagement hk ss = Inr mg\<close> this]
    show ?thesis by auto
  next
    case pv
    from generatePreventiveCare_shape [OF this] show ?thesis by simp
  next
    case md
    from generateMedicationSuggestions_shape
           [OF \<open>generateMedicationSuggestions hk ss = Inr md\<close> this]
    show ?thesis by auto
  qed
qed

theorem low_confidence_prediction_dropped_witness:
  "(''flu'', flu) \<in> set getDiseasePatterns
   \<and> js_ge (calculatePatternMatch (map type sample) (symptoms flu)) (Num (threshold flu))
   \<and> countMatches (map type sample) (symptoms flu) \<ge> 2
   \<and> Math_round (Math_min 95
        (js_mul (calculatePatternMatch (map type sample) (symptoms flu))
           (confidenceMultiplier flu))) = Num 51
   \<and> (\<exists>out. generateIntelligentSuggestions (Some getDefaultKnowledge) sample_now sample []
               = Inr out
         \<and> \<not> (\<exists>s \<in> set out. id_s s = ''disease_prediction_flu''))"
proof -
  have tbl: "(''flu'', flu) \<in> set getDiseasePatterns"
    by (simp add: getDiseasePatterns_def)
  have thr: "js_ge (calculatePatternMatch (map type sample) (symptoms flu))
               (Num (threshold flu))"
    by (simp add: sample_flu) (simp add: flu_def)
  have cnt: "countMatches (map type sample) (symptoms flu) \<ge> 2"
    by (simp add: sample_flu)
  have conf: "Math_round (Math_min 95
        (js_mul (calculatePatternMatch (map type sample) (symptoms flu))
           (confidenceMultiplier flu))) = Num 51"
    by (simp add: sample_flu) (simp add: flu_def)
  have low: "\<not> js_ge (Math_round (Math_min 95
        (js_mul (calculatePatternMatch (map type (sample @ [])) (symptoms flu))
           (confidenceMultiplier flu)))) (Num 60)"
    using conf by simp
  from low_confidence_prediction_dropped [OF tbl sample_suggestions low]
  have "\<not> (\<exists>s \<in> set
      [\<lparr>id_s = ''infection_pattern'', priority = High, category = ''diagnosis'',
            stage = None, confidence = Some (Num 85)\<rparr>,
          \<lparr>id_s = ''respiratory_pattern'', priority = High, category = ''diagnosis'',
            stage = None, confidence = Some (Num 80)\<rparr>,
          \<lparr>id_s = ''manage_headache'', priority = Medium, category = ''treatment'',
            stage = None, confidence = Some (Num 75)\<rparr>,
          \<lparr>id_s = ''medication_acetaminophen_fever'', priority = Medium,
            category = ''medication'', stage = None, confidence = Some (Num 85)\<rparr>,
          \<lparr>id_s = ''medication_acetaminophen_headache'', priority = Medium,
            category = ''medication'', stage = None, confidence = Some (Num 85)\<rparr>,
          \<lparr>id_s = ''preventive_care'', priority = Low, category = ''prevention'',
            stage = None, confidence = Some (Num 70)\<rparr>]. id_s s = ''disease_prediction_flu'')"
    by simp
  with sample_suggestions tbl thr cnt conf show ?thesis by blast
qed

end
